theory Spec2Isabelle
  imports Complex_Main "HOL-Library.Sublist"
begin

section \<open>Numbers\<close>

text \<open>
  The library computes on JavaScript numbers. They are modelled as real numbers:
  \<open>Math.sin\<close>, \<open>Math.cos\<close>, \<open>Math.asin\<close>, \<open>Math.acos\<close> and \<open>Math.sqrt\<close> are the
  functions \<^const>\<open>sin\<close>, \<^const>\<open>cos\<close>, \<^const>\<open>arcsin\<close>, \<^const>\<open>arccos\<close> and
  \<^const>\<open>sqrt\<close> of the reals, and \<open>Math.PI\<close> is \<^const>\<open>pi\<close>. Rounding of the
  binary64 format, infinities, the value NaN and the sign of zero are outside this model,
  so every statement below is a statement about finite numbers in exact arithmetic.
\<close>

subsection \<open>math.ts\<close>

definition degrees :: "real \<Rightarrow> real" where
  "degrees r = r * (180 / pi)"

definition radians :: "real \<Rightarrow> real" where
  "radians d = d * (pi / 180)"

definition clamp :: "real \<Rightarrow> real \<Rightarrow> real \<Rightarrow> real" where
  "clamp v mn mx = max mn (min mx v)"

text \<open>\<open>Math.round\<close>: the nearest integer, a tie going towards plus infinity.\<close>

definition Math_round :: "real \<Rightarrow> int" where
  "Math_round v = \<lfloor>v + 1 / 2\<rfloor>"

text \<open>
  \<open>`${num}`.includes("e")\<close>: a number is printed in exponent notation when it is not
  zero and its magnitude is below \<open>1e-6\<close> or at least \<open>1e21\<close>.
\<close>

definition includes_e :: "real \<Rightarrow> bool" where
  "includes_e num \<longleftrightarrow> num \<noteq> 0 \<and> (\<bar>num\<bar> < 1 / 10 ^ 6 \<or> 10 ^ 21 \<le> \<bar>num\<bar>)"

text \<open>
  The two halves of the exponent notation \<open>arr = `${num}`.split("e")\<close>: the decimal
  exponent \<open>+arr[1]\<close> and the mantissa \<open>+arr[0]\<close>, with \<open>1 \<le> \<bar>mantissa\<bar> < 10\<close>.
\<close>

definition exponent10 :: "real \<Rightarrow> int" where
  "exponent10 num = \<lfloor>log 10 \<bar>num\<bar>\<rfloor>"

definition mantissa10 :: "real \<Rightarrow> real" where
  "mantissa10 num = num / 10 powi exponent10 num"

text \<open>
  \<open>round(num, scale)\<close>. The strings \<open>`${a}e+${k}`\<close> and \<open>`${a}e-${k}`\<close> denote
  \<open>a * 10 ^ k\<close> and \<open>a / 10 ^ k\<close>; the variable \<open>sig\<close> of the source only chooses
  between writing the sign of a positive exponent or not and has no numeric effect.
\<close>

definition round_scale :: "real \<Rightarrow> nat \<Rightarrow> real" where
  "round_scale num scale =
     (if \<not> includes_e num
      then of_int (Math_round (num * 10 ^ scale)) / 10 ^ scale
      else of_int (Math_round (mantissa10 num * 10 powi (exponent10 num + int scale))) / 10 ^ scale)"

text \<open>
  \<open>Math.atan2(y, x)\<close>: the angle of the point \<open>(x, y)\<close> in \<open>(-\<pi>, \<pi>]\<close>, and 0 at the
  origin. JavaScript tells a negative zero from a positive one in both arguments; the
  reals have one zero, for which the model gives the answer of the positive zero.
\<close>

definition atan2 :: "real \<Rightarrow> real \<Rightarrow> real" where
  "atan2 y x =
     (if 0 < x then arctan (y / x)
      else if x < 0 then (if 0 \<le> y then arctan (y / x) + pi else arctan (y / x) - pi)
      else if 0 < y then pi / 2
      else if y < 0 then - (pi / 2)
      else 0)"

section \<open>The class Matrix\<close>

text \<open>
  A matrix object holds one field, the array \<open>elements\<close> in column-major order. A
  method that writes to the array is a function from the receiver before the call to the
  receiver after it; a method that throws yields the thrown error.
\<close>

record Matrix =
  elements :: "real list"

datatype error = Error string

text \<open>The value a method returns when it ends with \<open>return this\<close>.\<close>

datatype self = This

text \<open>
  The result of a call: the receiver after the call, and what the call produced, a
  thrown error or the returned value.
\<close>

type_synonym 'a call = "Matrix \<times> (error + 'a)"

text \<open>\<open>new Matrix()\<close>: the field initialiser is the identity.\<close>

definition new_Matrix :: Matrix where
  "new_Matrix = \<lparr>elements =
     [1, 0, 0, 0,
      0, 1, 0, 0,
      0, 0, 1, 0,
      0, 0, 0, 1]\<rparr>"

text \<open>
  The class keeps sixteen numbers in the array. \<open>setFromMatrixArray\<close> stores whatever
  array it is given; the statements below are about matrices of sixteen elements.
\<close>

definition sixteen :: "Matrix \<Rightarrow> bool" where
  "sixteen m \<longleftrightarrow> length (elements m) = 16"

definition getElements :: "Matrix \<Rightarrow> real list" where
  "getElements this = elements this"

definition toArray :: "Matrix \<Rightarrow> real list" where
  "toArray this = elements this"

definition setFromMatrixArray :: "Matrix \<Rightarrow> real list \<Rightarrow> Matrix" where
  "setFromMatrixArray this matrix = this\<lparr>elements := matrix\<rparr>"

definition setPosition :: "Matrix \<Rightarrow> real \<Rightarrow> real \<Rightarrow> real \<Rightarrow> Matrix" where
  "setPosition this x y z = this\<lparr>elements := (elements this)[12 := x, 13 := y, 14 := z]\<rparr>"

definition clone :: "Matrix \<Rightarrow> Matrix" where
  "clone this = setFromMatrixArray new_Matrix (toArray this)"

definition toMatrix3 :: "Matrix \<Rightarrow> real list" where
  "toMatrix3 this =
     (let m = elements this in
      [m ! 0, m ! 1, m ! 2,
       m ! 4, m ! 5, m ! 6,
       m ! 2, m ! 6, m ! 10])"

text \<open>
  A parameter declared with the default \<open>order: EulerOrder = "XYZ"\<close> takes the default
  when the caller leaves it out or passes \<open>undefined\<close> (\<open>None\<close>). An order is a string:
  the type \<open>EulerOrder\<close> is checked by the compiler only, and the methods compare the
  value they get with each tag in turn.
\<close>

definition order_or_default :: "string option \<Rightarrow> string" where
  "order_or_default order = (case order of None \<Rightarrow> ''XYZ'' | Some tag \<Rightarrow> tag)"

text \<open>\<open>setRotation\<close>: set from Euler angles in degrees.\<close>

definition setRotation :: "Matrix \<Rightarrow> real \<Rightarrow> real \<Rightarrow> real \<Rightarrow> string \<Rightarrow> self call" where
  "setRotation this x y z order =
     (let x = radians x; y = radians y; z = radians z;
          cx = cos x; sx = sin x;
          cy = cos y; sy = sin y;
          cz = cos z; sz = sin z;
          e = elements this
      in
      if order = ''XYZ'' then
        (let ae = cx * cz; af = cx * sz; be = sx * cz; bf = sx * sz in
         (this\<lparr>elements := e
            [0 := cy * cz, 4 := - cy * sz, 8 := sy,
             1 := af + be * sy, 5 := ae - bf * sy, 9 := - sx * cy,
             2 := bf - ae * sy, 6 := be + af * sy, 10 := cx * cy]\<rparr>, Inr This))
      else if order = ''YXZ'' then
        (let ce = cy * cz; cf = cy * sz; de = sy * cz; df = sy * sz in
         (this\<lparr>elements := e
            [0 := ce + df * sx, 4 := de * sx - cf, 8 := cx * sy,
             1 := cx * sz, 5 := cx * cz, 9 := - sx,
             2 := cf * sx - de, 6 := df + ce * sx, 10 := cx * cy]\<rparr>, Inr This))
      else if order = ''ZXY'' then
        (let ce = cy * cz; cf = cy * sz; de = sy * cz; df = sy * sz in
         (this\<lparr>elements := e
            [0 := ce - df * sx, 4 := - cx * sz, 8 := de + cf * sx,
             1 := cf + de * sx, 5 := cx * cz, 9 := df - ce * sx,
             2 := - cx * sy, 6 := sx, 10 := cx * cy]\<rparr>, Inr This))
      else if order = ''ZYX'' then
        (let ae = cx * cz; af = cx * sz; be = sx * cz; bf = sx * sz in
         (this\<lparr>elements := e
            [0 := cy * cz, 4 := be * sy - af, 8 := ae * sy + bf,
             1 := cy * sz, 5 := bf * sy + ae, 9 := af * sy - be,
             2 := - sy, 6 := sx * cy, 10 := cx * cy]\<rparr>, Inr This))
      else if order = ''YZX'' then
        (let ac = cx * cy; ad = cx * sy; bc = sx * cy; bd = sx * sy in
         (this\<lparr>elements := e
            [0 := cy * cz, 4 := bd - ac * sz, 8 := bc * sz + ad,
             1 := sz, 5 := cx * cz, 9 := - sx * cz,
             2 := - sy * cz, 6 := ad * sz + bc, 10 := ac - bd * sz]\<rparr>, Inr This))
      else if order = ''ZYZ'' then
        (if sy = 0 then
           (this\<lparr>elements := e
              [0 := cx * cz - sx * sz, 4 := - cz * sx - cx * sz,
               1 := cz * sx + cx * sz, 5 := cx * cz - sx * sz]\<rparr>, Inr This)
         else if round_scale sy 4 = 3.1416 then
           (this\<lparr>elements := e
              [0 := - cx * cz - sx * sz, 4 := - cz * sx + cx * sz,
               1 := - cz * sx + cx * sz, 5 := cx * cz + sx * sz]\<rparr>, Inr This)
         else
           (this\<lparr>elements := e
              [0 := cx * cy * cz - sx * sz, 4 := - cz * sx - cy * cx * sz, 8 := cx * sy,
               1 := sx * cy * cz + cx * sz, 5 := cx * cz - cy * sx * sz, 9 := sx * sy,
               2 := - sy * cz, 6 := sy * sz, 10 := cy]\<rparr>, Inr This))
      else if order = ''XZY'' then
        (let ac = cx * cy; ad = cx * sy; bc = sx * cy; bd = sx * sy in
         (this\<lparr>elements := e
            [0 := cy * cz, 4 := bd - ac * sz, 8 := bc * sz + ad,
             1 := sz, 5 := cx * cz, 9 := - sx * cz,
             2 := - sy * cz, 6 := ad * sz + bc, 10 := ac - bd * sz]\<rparr>, Inr This))
      else (this, Inl (Error (''Unrecognized order '' @ order))))"

definition setRotationFromQuaternion :: "Matrix \<Rightarrow> real \<Rightarrow> real \<Rightarrow> real \<Rightarrow> real \<Rightarrow> Matrix" where
  "setRotationFromQuaternion this x y z w =
     (let x2 = x + x; y2 = y + y; z2 = z + z;
          xx = x * x2; xy = x * y2; xz = x * z2;
          yy = y * y2; yz = y * z2; zz = z * z2;
          wx = w * x2; wy = w * y2; wz = w * z2
      in this\<lparr>elements := (elements this)
           [0 := 1 - (yy + zz), 1 := xy + wz, 2 := xz - wy,
            4 := xy - wz, 5 := 1 - (xx + zz), 6 := yz + wx,
            8 := xz + wy, 9 := yz - wx, 10 := 1 - (xx + yy)]\<rparr>)"

text \<open>
  \<open>multiplied\<close> reads both operands and fills a fresh array \<open>te\<close>, which starts empty
  and holds all sixteen entries once the sixteen assignments are done.
\<close>

definition multiplied :: "Matrix \<Rightarrow> Matrix \<Rightarrow> Matrix" where
  "multiplied this m =
     (let ae = elements this; be = toArray m;
          a11 = ae ! 0; a12 = ae ! 4; a13 = ae ! 8; a14 = ae ! 12;
          a21 = ae ! 1; a22 = ae ! 5; a23 = ae ! 9; a24 = ae ! 13;
          a31 = ae ! 2; a32 = ae ! 6; a33 = ae ! 10; a34 = ae ! 14;
          a41 = ae ! 3; a42 = ae ! 7; a43 = ae ! 11; a44 = ae ! 15;
          b11 = be ! 0; b12 = be ! 4; b13 = be ! 8; b14 = be ! 12;
          b21 = be ! 1; b22 = be ! 5; b23 = be ! 9; b24 = be ! 13;
          b31 = be ! 2; b32 = be ! 6; b33 = be ! 10; b34 = be ! 14;
          b41 = be ! 3; b42 = be ! 7; b43 = be ! 11; b44 = be ! 15;
          te0 = a11 * b11 + a12 * b21 + a13 * b31 + a14 * b41;
          te4 = a11 * b12 + a12 * b22 + a13 * b32 + a14 * b42;
          te8 = a11 * b13 + a12 * b23 + a13 * b33 + a14 * b43;
          te12 = a11 * b14 + a12 * b24 + a13 * b34 + a14 * b44;
          te1 = a21 * b11 + a22 * b21 + a23 * b31 + a24 * b41;
          te5 = a21 * b12 + a22 * b22 + a23 * b32 + a24 * b42;
          te9 = a21 * b13 + a22 * b23 + a23 * b33 + a24 * b43;
          te13 = a21 * b14 + a22 * b24 + a23 * b34 + a24 * b44;
          te2 = a31 * b11 + a32 * b21 + a33 * b31 + a34 * b41;
          te6 = a31 * b12 + a32 * b22 + a33 * b32 + a34 * b42;
          te10 = a31 * b13 + a32 * b23 + a33 * b33 + a34 * b43;
          te14 = a31 * b14 + a32 * b24 + a33 * b34 + a34 * b44;
          te3 = a41 * b11 + a42 * b21 + a43 * b31 + a44 * b41;
          te7 = a41 * b12 + a42 * b22 + a43 * b32 + a44 * b42;
          te11 = a41 * b13 + a42 * b23 + a43 * b33 + a44 * b43;
          te15 = a41 * b14 + a42 * b24 + a43 * b34 + a44 * b44
      in setFromMatrixArray new_Matrix
           [te0, te1, te2, te3, te4, te5, te6, te7,
            te8, te9, te10, te11, te12, te13, te14, te15])"

definition multiply :: "Matrix \<Rightarrow> Matrix \<Rightarrow> Matrix" where
  "multiply this matrix = setFromMatrixArray this (getElements (multiplied this matrix))"

definition transform :: "Matrix \<Rightarrow> Matrix \<Rightarrow> Matrix" where
  "transform this matrix = multiply this matrix"

text \<open>\<open>toQuaternion\<close>: the rotation as the tuple \<open>[x, y, z, w]\<close>.\<close>

definition toQuaternion :: "Matrix \<Rightarrow> real \<times> real \<times> real \<times> real" where
  "toQuaternion this =
     (let te = elements this;
          m11 = te ! 0; m12 = te ! 4; m13 = te ! 8;
          m21 = te ! 1; m22 = te ! 5; m23 = te ! 9;
          m31 = te ! 2; m32 = te ! 6; m33 = te ! 10;
          trace = m11 + m22 + m33
      in
      if trace > 0 then
        (let s = 0.5 / sqrt (trace + 1.0);
             w = 0.25 / s;
             x = (m32 - m23) * s;
             y = (m13 - m31) * s;
             z = (m21 - m12) * s
         in (x, y, z, w))
      else if m11 > m22 \<and> m11 > m33 then
        (let s = 2.0 * sqrt (1.0 + m11 - m22 - m33);
             w = (m32 - m23) / s;
             x = 0.25 * s;
             y = (m12 + m21) / s;
             z = (m13 + m31) / s
         in (x, y, z, w))
      else if m22 > m33 then
        (let s = 2.0 * sqrt (1.0 + m22 - m11 - m33);
             w = (m13 - m31) / s;
             x = (m12 + m21) / s;
             y = 0.25 * s;
             z = (m23 + m32) / s
         in (x, y, z, w))
      else
        (let s = 2.0 * sqrt (1.0 + m33 - m11 - m22);
             w = (m21 - m12) / s;
             x = (m13 + m31) / s;
             y = (m23 + m32) / s;
             z = 0.25 * s
         in (x, y, z, w)))"

text \<open>
  \<open>applyQuaternion\<close> reads the receiver and returns a new matrix: the result is the
  receiver after the call and the returned matrix.
\<close>

definition applyQuaternion :: "Matrix \<Rightarrow> real \<Rightarrow> real \<Rightarrow> real \<Rightarrow> real \<Rightarrow> Matrix \<times> Matrix" where
  "applyQuaternion this x y z w =
     (let (qax, qay, qaz, qaw) = toQuaternion this;
          qbx = x; qby = y; qbz = z; qbw = w;
          nx = qax * qbw + qaw * qbx + qay * qbz - qaz * qby;
          ny = qay * qbw + qaw * qby + qaz * qbx - qax * qbz;
          nz = qaz * qbw + qaw * qbz + qax * qby - qay * qbx;
          nw = qaw * qbw - qax * qbx - qay * qby - qaz * qbz
      in (this, setRotationFromQuaternion new_Matrix nx ny nz nw))"

text \<open>
  \<open>rotated\<close> returns the matrix that \<open>applyQuaternion\<close> builds from a copy of the
  receiver.
\<close>

definition rotated :: "Matrix \<Rightarrow> real \<Rightarrow> real \<Rightarrow> real \<Rightarrow> string option \<Rightarrow> Matrix call" where
  "rotated this x y z order =
     (case setRotation new_Matrix x y z (order_or_default order) of
        (t, Inl err) \<Rightarrow> (this, Inl err)
      | (t, Inr This) \<Rightarrow>
          (let (qx, qy, qz, qw) = toQuaternion t
           in (this, Inr (snd (applyQuaternion (clone this) qx qy qz qw)))))"

text \<open>
  \<open>rotate\<close> (here \<open>rotate_this\<close>) calls \<open>applyQuaternion\<close> on the receiver, drops the matrix that call
  returns, and returns \<open>this\<close>.
\<close>

definition rotate_this :: "Matrix \<Rightarrow> real \<Rightarrow> real \<Rightarrow> real \<Rightarrow> string option \<Rightarrow> self call" where
  "rotate_this this x y z order =
     (case setRotation new_Matrix x y z (order_or_default order) of
        (t, Inl err) \<Rightarrow> (this, Inl err)
      | (t, Inr This) \<Rightarrow>
          (let (qx, qy, qz, qw) = toQuaternion t;
               (this, dropped) = applyQuaternion this qx qy qz qw
           in (this, Inr This)))"

text \<open>\<open>toEuler\<close>: three angles in degrees. The method only reads the receiver.\<close>

definition toEuler :: "Matrix \<Rightarrow> string \<Rightarrow> real list call" where
  "toEuler this order =
     (let te = elements this;
          m11 = te ! 0; m12 = te ! 4; m13 = te ! 8;
          m21 = te ! 1; m22 = te ! 5; m23 = te ! 9;
          m31 = te ! 2; m32 = te ! 6; m33 = te ! 10
      in
      if order = ''XYZ'' then
        (let y = arcsin (clamp m13 (- 1) 1);
             (x, z) = (if \<bar>m13\<bar> < 0.9999999
                       then (atan2 (- m23) m33, atan2 (- m12) m11)
                       else (atan2 m32 m22, 0))
         in (this, Inr (map degrees [x, y, z])))
      else if order = ''YXZ'' then
        (let x = arcsin (- clamp m23 (- 1) 1);
             (y, z) = (if \<bar>m23\<bar> < 0.9999999
                       then (atan2 m13 m33, atan2 m21 m22)
                       else (atan2 (- m31) m11, 0))
         in (this, Inr (map degrees [x, y, z])))
      else if order = ''ZXY'' then
        (let x = arcsin (clamp m32 (- 1) 1);
             (y, z) = (if \<bar>m32\<bar> < 0.9999999
                       then (atan2 (- m31) m33, atan2 (- m12) m22)
                       else (0, atan2 m21 m11))
         in (this, Inr (map degrees [x, y, z])))
      else if order = ''ZYX'' then
        (let y = arcsin (- clamp m31 (- 1) 1);
             (x, z) = (if \<bar>m31\<bar> < 0.9999999
                       then (atan2 m32 m33, atan2 m21 m11)
                       else (0, atan2 (- m12) m22))
         in (this, Inr (map degrees [x, y, z])))
      else if order = ''YZX'' then
        (let z = arcsin (clamp m21 (- 1) 1);
             (x, y) = (if \<bar>m21\<bar> < 0.9999999
                       then (atan2 (- m23) m22, atan2 (- m31) m11)
                       else (0, atan2 m13 m33))
         in (this, Inr (map degrees [x, y, z])))
      else if order = ''XZY'' then
        (let z = arcsin (- clamp m12 (- 1) 1);
             (x, y) = (if \<bar>m12\<bar> < 0.9999999
                       then (atan2 m32 m22, atan2 m13 m11)
                       else (atan2 (- m23) m33, 0))
         in (this, Inr (map degrees [x, y, z])))
      else if order = ''ZYZ'' then
        (let (x, y, z) =
               (if m33 < 1 then
                  (if m33 > - 1
                   then (atan2 m23 m13, arccos m33, atan2 m32 (- m31))
                   else (- atan2 m21 m22, pi, 0))
                else (atan2 m21 m22, 0, 0))
         in (this, Inr (map degrees [x, y, z])))
      else (this, Inl (Error ''Invalid euler order.'')))"

section \<open>Notions of the specification\<close>

text \<open>The seven order tags that the two Euler methods recognise.\<close>

definition supported_orders :: "string list" where
  "supported_orders = [''XYZ'', ''YXZ'', ''ZXY'', ''ZYX'', ''YZX'', ''ZYZ'', ''XZY'']"

text \<open>An error identifies an order when its message contains the order's tag.\<close>

definition names_order :: "error \<Rightarrow> string \<Rightarrow> bool" where
  "names_order err order = (case err of Error message \<Rightarrow> sublist order message)"

text \<open>
  \<open>new Matrix().setRotation(x, y, z, order).toEuler(order)\<close>: what the second call
  returns or throws.
\<close>

definition fromEuler_toEuler :: "real \<Rightarrow> real \<Rightarrow> real \<Rightarrow> string \<Rightarrow> error + real list" where
  "fromEuler_toEuler x y z order =
     (case setRotation new_Matrix x y z order of
        (m, Inl err) \<Rightarrow> Inl err
      | (m, Inr This) \<Rightarrow> snd (toEuler m order))"

text \<open>The round trip reproduces the three angles within \<open>1e-4\<close> degrees.\<close>

definition reproduces :: "real \<Rightarrow> real \<Rightarrow> real \<Rightarrow> string \<Rightarrow> bool" where
  "reproduces x y z order =
     (case fromEuler_toEuler x y z order of
        Inr [x', y', z'] \<Rightarrow> \<bar>x' - x\<bar> \<le> 1 / 10 ^ 4 \<and> \<bar>y' - y\<bar> \<le> 1 / 10 ^ 4 \<and> \<bar>z' - z\<bar> \<le> 1 / 10 ^ 4
      | _ \<Rightarrow> False)"

text \<open>
  The ranges of the angles, in degrees, in which \<open>toEuler\<close> gives back the angle
  that \<open>setRotation\<close> was given. An angle read with \<open>Math.atan2\<close> lies in
  \<open>(-180, 180]\<close>. An angle read with \<open>Math.asin\<close> lies in \<open>[-89.9, 89.9]\<close>, a tenth
  of a degree away from the gimbal configurations at 90 and -90 degrees. The middle angle
  of \<open>ZYZ\<close>, read with \<open>Math.acos\<close>, lies in \<open>[0.1, 179.9]\<close>, a tenth of a degree
  away from the degenerate configurations at 0 and 180 degrees.
\<close>

definition atan2_range :: "real \<Rightarrow> bool" where
  "atan2_range d \<longleftrightarrow> - 180 < d \<and> d \<le> 180"

definition asin_range :: "real \<Rightarrow> bool" where
  "asin_range d \<longleftrightarrow> - 89.9 \<le> d \<and> d \<le> 89.9"

definition acos_range :: "real \<Rightarrow> bool" where
  "acos_range d \<longleftrightarrow> 0.1 \<le> d \<and> d \<le> 179.9"

definition principal_range :: "string \<Rightarrow> real \<Rightarrow> real \<Rightarrow> real \<Rightarrow> bool" where
  "principal_range order x y z =
     (if order = ''XYZ'' \<or> order = ''ZYX'' then atan2_range x \<and> asin_range y \<and> atan2_range z
      else if order = ''YXZ'' \<or> order = ''ZXY'' then asin_range x \<and> atan2_range y \<and> atan2_range z
      else if order = ''YZX'' then atan2_range x \<and> atan2_range y \<and> asin_range z
      else if order = ''ZYZ'' then atan2_range x \<and> acos_range y \<and> atan2_range z
      else False)"

section \<open>Properties\<close>

subsection \<open>Arrays of sixteen elements\<close>

lemma list16:
  assumes "length xs = 16"
  shows "xs = [xs ! 0, xs ! 1, xs ! 2, xs ! 3, xs ! 4, xs ! 5, xs ! 6, xs ! 7,
               xs ! 8, xs ! 9, xs ! 10, xs ! 11, xs ! 12, xs ! 13, xs ! 14, xs ! 15]"
  using assms by (auto simp: list_eq_iff_nth_eq less_Suc_eq_0_disj numeral_eq_Suc)

lemma sixteen_new_Matrix: "sixteen new_Matrix"
  by (simp add: sixteen_def new_Matrix_def)

subsection \<open>Rounding\<close>

text \<open>Both branches of \<open>round\<close> compute the same number.\<close>

lemma round_scale_eq:
  "round_scale num scale = of_int \<lfloor>num * 10 ^ scale + 1 / 2\<rfloor> / 10 ^ scale"
proof (cases "includes_e num")
  case False
  then show ?thesis
    by (simp add: round_scale_def Math_round_def)
next
  case True
  have "mantissa10 num * 10 powi (exponent10 num + int scale) = num * 10 ^ scale"
    by (simp add: mantissa10_def power_int_add)
  with True show ?thesis
    by (simp add: round_scale_def Math_round_def)
qed

text \<open>A sine is at most 1, so rounding it to four decimals never gives 3.1416.\<close>

lemma round_scale_sin: "round_scale (sin (t::real)) 4 \<noteq> 3.1416"
proof -
  have ten: "(10::real) ^ 4 = 10000"
    by simp
  have "sin t * 10 ^ 4 + 1 / 2 < 10001"
    unfolding ten using sin_le_one [of t] by linarith
  then have "\<lfloor>sin t * 10 ^ 4 + 1 / 2\<rfloor> \<le> 10000"
    by (simp add: floor_le_iff)
  then have "real_of_int \<lfloor>sin t * 10 ^ 4 + 1 / 2\<rfloor> \<le> 10000"
    by linarith
  then have "real_of_int \<lfloor>sin t * 10 ^ 4 + 1 / 2\<rfloor> / 10 ^ 4 \<le> 1"
    by simp
  moreover have "(1::real) < 3.1416"
    by simp
  ultimately show ?thesis
    unfolding round_scale_eq by linarith
qed



lemma round_scale_sin_normal: "round_scale (sin (t::real)) 4 * 1250 \<noteq> 3927"
  using round_scale_sin [of t] by simp

subsection \<open>Angles\<close>

lemma degrees_radians: "degrees (radians d) = d"
  by (simp add: degrees_def radians_def)

lemma radians_less: "radians a < radians b \<longleftrightarrow> a < b"
  by (simp add: radians_def)

lemma radians_le: "radians a \<le> radians b \<longleftrightarrow> a \<le> b"
  by (simp add: radians_def)

lemma radians_0: "radians 0 = 0"
  by (simp add: radians_def)

lemma radians_180: "radians 180 = pi"
  by (simp add: radians_def)

lemma radians_m180: "radians (- 180) = - pi"
  by (simp add: radians_def)

lemma radians_90: "radians 90 = pi / 2"
  by (simp add: radians_def)

lemma radians_m90: "radians (- 90) = - (pi / 2)"
  by (simp add: radians_def)

lemma clamp_sin: "clamp (sin (t::real)) (- 1) 1 = sin t"
  using sin_le_one [of t] sin_ge_minus_one [of t] unfolding clamp_def by linarith

lemma clamp_minus_sin: "clamp (- sin (t::real)) (- 1) 1 = - sin t"
  using sin_le_one [of t] sin_ge_minus_one [of t] unfolding clamp_def by linarith

lemma clamp_id: "- 1 \<le> v \<Longrightarrow> v \<le> 1 \<Longrightarrow> clamp v (- 1) 1 = v"
  unfolding clamp_def by linarith

lemma radians_atan2_range:
  assumes "atan2_range d"
  shows "- pi < radians d" and "radians d \<le> pi"
proof -
  have "radians (- 180) < radians d" and "radians d \<le> radians 180"
    using assms by (simp_all only: radians_less radians_le atan2_range_def)
  then show "- pi < radians d" and "radians d \<le> pi"
    by (simp_all only: radians_180 radians_m180)
qed

text \<open>
  A lower bound of the sine from its Maclaurin series, and with it the cosine of a tenth
  of a degree: it is below the threshold \<open>0.9999999\<close> of the gimbal branches.
\<close>

lemma lessThan_3: "{..<(3::nat)} = {0, 1, 2}"
  by auto

lemma sin_lower_bound:
  fixes w :: real
  assumes "0 \<le> w"
  shows "w - w ^ 3 / 6 \<le> sin w"
proof -
  have s: "(\<Sum>m<3. sin_coeff m * w ^ m) = w"
    unfolding lessThan_3 by (simp add: sin_coeff_def)
  have f: "inverse (fact 3) * \<bar>w\<bar> ^ 3 = w ^ 3 / 6"
    using assms by (simp add: fact_numeral)
  have "\<bar>sin w - (\<Sum>m<3. sin_coeff m * w ^ m)\<bar> \<le> inverse (fact 3) * \<bar>w\<bar> ^ 3"
    by (rule Maclaurin_sin_bound)
  then have "\<bar>sin w - w\<bar> \<le> w ^ 3 / 6"
    by (simp only: s f)
  then show ?thesis
    by linarith
qed

lemma cos_tenth_degree: "cos (pi / 1800) < 0.9999999"
proof -
  define w where "w = pi / 3600"
  have w: "1 / 1800 \<le> w" "w \<le> 1 / 900"
    using pi_ge_two pi_less_4 by (simp_all add: w_def)
  have "w ^ 3 \<le> (1 / 900) ^ 3"
    using w by (intro power_mono) linarith+
  then have "1 / 1800 - (1 / 900) ^ 3 / 6 \<le> w - w ^ 3 / 6"
    using w by linarith
  also have "\<dots> \<le> sin w"
    using w by (intro sin_lower_bound) linarith
  finally have lo: "1 / 2000 \<le> sin w"
    by (simp add: power3_eq_cube)
  have "(1 / 2000) ^ 2 \<le> sin w ^ 2"
    using lo by (intro power_mono) simp_all
  moreover have "cos (2 * w) = 1 - 2 * sin w ^ 2"
    by (rule cos_double_sin)
  moreover have "2 * w = pi / 1800"
    by (simp add: w_def)
  ultimately have "cos (pi / 1800) \<le> 1 - 2 * (1 / 2000) ^ 2"
    by simp
  also have "\<dots> < (0.9999999::real)"
    by (simp add: power2_eq_square)
  finally show ?thesis .
qed

lemma radians_asin_range:
  assumes "asin_range d"
  shows "- (pi / 2) < radians d" and "radians d < pi / 2" and "0 < cos (radians d)"
    and "\<bar>sin (radians d)\<bar> < 0.9999999"
proof -
  define t where "t = pi / 2 - pi / 1800"
  have t: "radians 89.9 = t" "radians (- 89.9) = - t"
    by (simp_all add: radians_def t_def)
  have "radians (- 89.9) \<le> radians d" and "radians d \<le> radians 89.9"
    using assms by (simp_all only: radians_le asin_range_def)
  then have r: "- t \<le> radians d" "radians d \<le> t"
    by (simp_all only: t)
  have tp: "0 < t" "t < pi / 2"
    using pi_gt_zero by (simp_all add: t_def)
  from r tp show lo: "- (pi / 2) < radians d" and hi: "radians d < pi / 2"
    by linarith+
  from lo hi show "0 < cos (radians d)"
    by (rule cos_gt_zero_pi)
  have "sin t = cos (pi / 1800)"
    unfolding t_def by (simp add: cos_sin_eq [of "pi / 1800"])
  then have st: "sin t < 0.9999999"
    using cos_tenth_degree by simp
  have "sin (radians d) \<le> sin t"
    using r tp by (intro sin_monotone_2pi_le) linarith+
  moreover have "sin (- t) \<le> sin (radians d)"
    using r tp by (intro sin_monotone_2pi_le) linarith+
  ultimately show "\<bar>sin (radians d)\<bar> < 0.9999999"
    using st by simp
qed

lemma radians_acos_range:
  assumes "acos_range d"
  shows "0 < radians d" and "radians d < pi"
proof -
  have "0 < d" and "d < 180"
    using assms by (simp_all add: acos_range_def)
  then have "radians 0 < radians d" and "radians d < radians 180"
    by (simp_all only: radians_less)
  then show "0 < radians d" and "radians d < pi"
    by (simp_all only: radians_0 radians_180)
qed

text \<open>The sign of the cosine on \<open>(-\<pi>, \<pi>]\<close>.\<close>

lemma cos_sign_on_circle:
  assumes "- pi < a" and "a \<le> pi"
  shows "(0 < cos a \<longleftrightarrow> \<bar>a\<bar> < pi / 2) \<and> (cos a = 0 \<longleftrightarrow> \<bar>a\<bar> = pi / 2)"
proof -
  consider (inner) "\<bar>a\<bar> < pi / 2" | (edge) "\<bar>a\<bar> = pi / 2" | (outer) "pi / 2 < \<bar>a\<bar>"
    by linarith
  then show ?thesis
  proof cases
    case inner
    then have "0 < cos a"
      by (intro cos_gt_zero_pi) linarith+
    with inner show ?thesis by simp
  next
    case edge
    have "cos \<bar>a\<bar> = 0"
      by (simp only: edge cos_pi_half)
    then have "cos a = 0" by simp
    with edge show ?thesis by simp
  next
    case outer
    have "cos \<bar>a\<bar> < cos (pi / 2)"
      using outer assms by (intro cos_monotone_0_pi) linarith+
    then have "cos a < 0" by simp
    with outer show ?thesis by simp
  qed
qed

text \<open>
  \<open>Math.atan2\<close> gives back the angle of a point on a circle of radius \<open>k\<close>, when the
  angle is in \<open>(-\<pi>, \<pi>]\<close>.
\<close>

lemma atan2_sin_cos:
  assumes k: "0 < k" and lo: "- pi < a" and hi: "a \<le> pi"
  shows "atan2 (k * sin a) (k * cos a) = a"
proof -
  have quot: "k * sin a / (k * cos a) = tan a"
    using k by (simp add: tan_def)
  note cs = cos_sign_on_circle [OF lo hi]
  consider (pos) "0 < cos a" | (zero) "cos a = 0" | (neg) "cos a < 0"
    by linarith
  then show ?thesis
  proof cases
    case pos
    with cs have "\<bar>a\<bar> < pi / 2" by simp
    then have "arctan (tan a) = a"
      by (intro arctan_tan) linarith+
    with pos k quot show ?thesis by (simp add: atan2_def)
  next
    case zero
    with cs have "a = pi / 2 \<or> a = - (pi / 2)" by linarith
    then show ?thesis
    proof
      assume a: "a = pi / 2"
      have "sin a = 1" and "cos a = 0"
        unfolding a by simp_all
      with k have "atan2 (k * sin a) (k * cos a) = pi / 2"
        by (simp add: atan2_def)
      with a show ?thesis by simp
    next
      assume a: "a = - (pi / 2)"
      have "sin a = - 1" and "cos a = 0"
        unfolding a by simp_all
      with k have "atan2 (k * sin a) (k * cos a) = - (pi / 2)"
        by (simp add: atan2_def)
      with a show ?thesis by simp
    qed
  next
    case neg
    with cs have out: "pi / 2 < \<bar>a\<bar>" by linarith
    have kc: "k * cos a < 0"
      using k neg by (simp add: mult_pos_neg)
    show ?thesis
    proof (cases "0 \<le> a")
      case True
      with out hi have rng: "pi / 2 < a" "a \<le> pi" by linarith+
      then have "0 \<le> sin a"
        by (intro sin_ge_zero) linarith+
      then have ks: "0 \<le> k * sin a"
        using k by simp
      have "tan (a - pi + pi) = tan (a - pi)"
        by (rule tan_periodic_pi)
      moreover have "arctan (tan (a - pi)) = a - pi"
        using rng by (intro arctan_tan) linarith+
      ultimately have "arctan (tan a) = a - pi" by simp
      with kc ks quot show ?thesis by (simp add: atan2_def)
    next
      case False
      with out lo have rng: "- pi < a" "a < - (pi / 2)" by linarith+
      then have "0 < sin (- a)"
        by (intro sin_gt_zero) linarith+
      then have "sin a < 0" by simp
      then have ks: "k * sin a < 0"
        using k by (simp add: mult_pos_neg)
      have "arctan (tan (a + pi)) = a + pi"
        using rng by (intro arctan_tan) linarith+
      then have "arctan (tan a) = a + pi"
        by (simp only: tan_periodic_pi)
      with kc ks quot show ?thesis by (simp add: atan2_def)
    qed
  qed
qed

lemma atan2_sin_cos':
  assumes "0 < k" and "- pi < a" and "a \<le> pi"
  shows "atan2 (sin a * k) (cos a * k) = a"
  using atan2_sin_cos [OF assms] by (simp add: mult.commute)

subsection \<open>toMatrix3\<close>

text \<open>
  Claim C10. For every matrix \<open>m\<close>, \<open>toMatrix3\<close> returns exactly the nine elements of
  \<open>m\<close> at the indices 0, 1, 2, 4, 5, 6, 2, 6, 10, in that order.
\<close>

theorem toMatrix3_elements:
  "toMatrix3 m =
     [elements m ! 0, elements m ! 1, elements m ! 2,
      elements m ! 4, elements m ! 5, elements m ! 6,
      elements m ! 2, elements m ! 6, elements m ! 10]"
  by (simp add: toMatrix3_def Let_def)

text \<open>
  Claim C8, as stated: whenever elements 2 and 10 differ, the entry at index 8 of the
  array returned by \<open>toMatrix3\<close> is element 2 and not element 10. It fails on the
  matrix with element 2 equal to 0.5 and element 10 equal to 0.8: the entry at index 8
  is 0.8.
\<close>

theorem toMatrix3_index8_counterexample:
  "toMatrix3 \<lparr>elements = [1, 0, 0.5, 0, 0, 1, 0, 0, 0, 0, 0.8, 0, 0, 0, 0, 1]\<rparr> ! 8 = 0.8
   \<and> toMatrix3 \<lparr>elements = [1, 0, 0.5, 0, 0, 1, 0, 0, 0, 0, 0.8, 0, 0, 0, 0, 1]\<rparr> ! 8 \<noteq> 0.5"
  by (simp add: toMatrix3_def Let_def)

text \<open>
  Claim C8, amended: for every matrix, the entry at index 8 of the array returned by
  \<open>toMatrix3\<close> is element 10; element 2 is the entry at index 6 (and at index 2).
\<close>

theorem toMatrix3_index8:
  "toMatrix3 m ! 8 = elements m ! 10 \<and> toMatrix3 m ! 6 = elements m ! 2
   \<and> toMatrix3 m ! 2 = elements m ! 2"
  by (simp add: toMatrix3_def Let_def)

subsection \<open>setRotation\<close>

text \<open>
  Claim C4. For every angle triple, \<open>setRotation\<close> with the order \<open>YZX\<close> and with the
  order \<open>XZY\<close> writes the same values to the same elements: the receiver after the call
  and the outcome are the same.
\<close>

theorem setRotation_XZY_is_YZX:
  "setRotation m x y z ''XZY'' = setRotation m x y z ''YZX''"
  by (simp add: setRotation_def)

text \<open>
  Claim C5, as stated: for an order outside the seven supported ones, both
  \<open>setRotation\<close> and \<open>toEuler\<close> fail with an error that identifies the order. It fails
  for \<open>toEuler\<close> at the order \<open>BAD\<close>: the message is a fixed text without the tag.
\<close>

theorem toEuler_error_counterexample:
  "toEuler new_Matrix ''BAD'' = (new_Matrix, Inl (Error ''Invalid euler order.''))
   \<and> \<not> names_order (Error ''Invalid euler order.'') ''BAD''"
  by (simp add: toEuler_def Let_def names_order_def sublist_Cons_right)

text \<open>
  Claim C5, amended: for an order outside the seven supported ones, \<open>setRotation\<close>
  (with any angles) throws an error whose message is \<open>Unrecognized order\<close> followed by
  the order, which identifies it; \<open>toEuler\<close> throws an error with the fixed message
  \<open>Invalid euler order.\<close>; and after either failing call the receiver is as before.
\<close>

theorem unsupported_order_fails:
  assumes "order \<notin> set supported_orders"
  shows "setRotation m x y z order = (m, Inl (Error (''Unrecognized order '' @ order)))
         \<and> names_order (Error (''Unrecognized order '' @ order)) order
         \<and> toEuler m order = (m, Inl (Error ''Invalid euler order.''))"
proof -
  have "setRotation m x y z order = (m, Inl (Error (''Unrecognized order '' @ order)))"
    using assms by (simp add: setRotation_def supported_orders_def Let_def)
  moreover have "names_order (Error (''Unrecognized order '' @ order)) order"
    unfolding names_order_def error.case by (rule suffix_imp_sublist) (simp add: suffix_def)
  moreover have "toEuler m order = (m, Inl (Error ''Invalid euler order.''))"
    using assms by (simp add: toEuler_def supported_orders_def Let_def)
  ultimately show ?thesis by simp
qed

theorem unsupported_order_fails_witness:
  "''BAD'' \<notin> set supported_orders
   \<and> setRotation new_Matrix 0 0 0 ''BAD'' = (new_Matrix, Inl (Error ''Unrecognized order BAD''))
   \<and> names_order (Error ''Unrecognized order BAD'') ''BAD''
   \<and> toEuler new_Matrix ''BAD'' = (new_Matrix, Inl (Error ''Invalid euler order.''))"
proof -
  have h: "''BAD'' \<notin> set supported_orders"
    by (simp add: supported_orders_def)
  show ?thesis
    using h unsupported_order_fails [OF h, of new_Matrix 0 0 0] by simp
qed

subsection \<open>multiplied\<close>

text \<open>
  Claim C7. For every matrix \<open>m\<close> (of sixteen elements), \<open>m.multiplied(identity)\<close> and
  \<open>identity.multiplied(m)\<close> both have the elements of \<open>m\<close>.
\<close>

theorem multiplied_identity:
  assumes "sixteen m"
  shows "elements (multiplied m new_Matrix) = elements m
         \<and> elements (multiplied new_Matrix m) = elements m"
proof -
  define xs where "xs = elements m"
  have len: "length xs = 16"
    using assms by (simp add: sixteen_def xs_def)
  have "elements (multiplied m new_Matrix) =
        [xs ! 0, xs ! 1, xs ! 2, xs ! 3, xs ! 4, xs ! 5, xs ! 6, xs ! 7,
         xs ! 8, xs ! 9, xs ! 10, xs ! 11, xs ! 12, xs ! 13, xs ! 14, xs ! 15]"
    by (simp add: multiplied_def new_Matrix_def Let_def toArray_def
        setFromMatrixArray_def xs_def)
  also have "\<dots> = xs"
    by (rule list16 [OF len, symmetric])
  finally have right: "elements (multiplied m new_Matrix) = elements m"
    by (simp add: xs_def)
  have "elements (multiplied new_Matrix m) =
        [xs ! 0, xs ! 1, xs ! 2, xs ! 3, xs ! 4, xs ! 5, xs ! 6, xs ! 7,
         xs ! 8, xs ! 9, xs ! 10, xs ! 11, xs ! 12, xs ! 13, xs ! 14, xs ! 15]"
    by (simp add: multiplied_def new_Matrix_def Let_def toArray_def
        setFromMatrixArray_def xs_def)
  also have "\<dots> = xs"
    by (rule list16 [OF len, symmetric])
  finally have left: "elements (multiplied new_Matrix m) = elements m"
    by (simp add: xs_def)
  from right left show ?thesis ..
qed

theorem multiplied_identity_witness:
  "sixteen \<lparr>elements = [1, 2, 3, 4, 5, 6, 7, 8, 9, 10, 11, 12, 13, 14, 15, 16]\<rparr>
   \<and> elements (multiplied \<lparr>elements = [1, 2, 3, 4, 5, 6, 7, 8, 9, 10, 11, 12, 13, 14, 15, 16]\<rparr>
        new_Matrix) = [1, 2, 3, 4, 5, 6, 7, 8, 9, 10, 11, 12, 13, 14, 15, 16]
   \<and> elements (multiplied new_Matrix
        \<lparr>elements = [1, 2, 3, 4, 5, 6, 7, 8, 9, 10, 11, 12, 13, 14, 15, 16]\<rparr>)
      = [1, 2, 3, 4, 5, 6, 7, 8, 9, 10, 11, 12, 13, 14, 15, 16]"
proof -
  have h: "sixteen \<lparr>elements = [1, 2, 3, 4, 5, 6, 7, 8, 9, 10, 11, 12, 13, 14, 15, 16]\<rparr>"
    by (simp add: sixteen_def)
  show ?thesis
    using h multiplied_identity [OF h] by simp
qed

subsection \<open>applyQuaternion and rotate\<close>

text \<open>
  Claim C9. For every matrix \<open>m\<close> and every quaternion, \<open>applyQuaternion\<close> leaves \<open>m\<close>
  as it was and returns a new matrix of sixteen elements whose elements 12, 13, 14 are 0
  and whose elements 3, 7, 11, 15 are 0, 0, 0, 1.
\<close>

theorem applyQuaternion_pure_rotation:
  "fst (applyQuaternion m x y z w) = m
   \<and> sixteen (snd (applyQuaternion m x y z w))
   \<and> elements (snd (applyQuaternion m x y z w)) ! 12 = 0
   \<and> elements (snd (applyQuaternion m x y z w)) ! 13 = 0
   \<and> elements (snd (applyQuaternion m x y z w)) ! 14 = 0
   \<and> elements (snd (applyQuaternion m x y z w)) ! 3 = 0
   \<and> elements (snd (applyQuaternion m x y z w)) ! 7 = 0
   \<and> elements (snd (applyQuaternion m x y z w)) ! 11 = 0
   \<and> elements (snd (applyQuaternion m x y z w)) ! 15 = 1"
  by (simp add: applyQuaternion_def setRotationFromQuaternion_def new_Matrix_def
      sixteen_def Let_def split: prod.splits)

text \<open>
  In \<open>toQuaternion\<close> every square root is taken of a number that is at least 1, so
  no branch divides by zero: with a sum of the diagonal that is not positive, the branch
  taken has the largest diagonal element in the place with the plus sign.
\<close>

lemma toQuaternion_radicands:
  fixes m11 m22 m33 :: real
  assumes "\<not> m11 + m22 + m33 > 0"
  shows "m11 > m22 \<and> m11 > m33 \<Longrightarrow> 1 \<le> 1.0 + m11 - m22 - m33"
    and "\<not> (m11 > m22 \<and> m11 > m33) \<Longrightarrow> m22 > m33 \<Longrightarrow> 1 \<le> 1.0 + m22 - m11 - m33"
    and "\<not> (m11 > m22 \<and> m11 > m33) \<Longrightarrow> \<not> m22 > m33 \<Longrightarrow> 1 \<le> 1.0 + m33 - m11 - m22"
  using assms by auto

text \<open>Whatever its arguments, \<open>rotate\<close> leaves the receiver as it was.\<close>

lemma rotate_this_receiver: "fst (rotate_this m x y z order) = m"
  by (simp add: rotate_this_def applyQuaternion_def Let_def
      split: prod.splits sum.splits self.splits)

text \<open>
  Claim C1 says that \<open>rotate\<close> leaves in the receiver the matrix that \<open>applyQuaternion\<close>
  builds, without the receiver's translation. On the identity moved to \<open>(1, 2, 3)\<close> and
  rotated by 180 degrees about x, the quaternion of the rotation is \<open>(1, 0, 0, 0)\<close> and
  \<open>applyQuaternion\<close> returns the matrix with diagonal \<open>1, -1, -1, 1\<close> and no
  translation, but \<open>rotate\<close> returns \<open>this\<close> with the receiver unchanged: diagonal
  \<open>1, 1, 1, 1\<close> and translation \<open>(1, 2, 3)\<close>.
\<close>

theorem rotate_this_discards_rotation:
  "rotate_this (setPosition new_Matrix 1 2 3) 180 0 0 (Some ''XYZ'')
     = (setPosition new_Matrix 1 2 3, Inr This)
   \<and> elements (setPosition new_Matrix 1 2 3)
     = [1, 0, 0, 0, 0, 1, 0, 0, 0, 0, 1, 0, 1, 2, 3, 1]
   \<and> toQuaternion (fst (setRotation new_Matrix 180 0 0 ''XYZ'')) = (1, 0, 0, 0)
   \<and> elements (snd (applyQuaternion (setPosition new_Matrix 1 2 3) 1 0 0 0))
     = [1, 0, 0, 0, 0, - 1, 0, 0, 0, 0, - 1, 0, 0, 0, 0, 1]"
proof -
  have "rotate_this (setPosition new_Matrix 1 2 3) 180 0 0 (Some ''XYZ'')
          = (setPosition new_Matrix 1 2 3, Inr This)"
    by (simp add: rotate_this_def applyQuaternion_def Let_def order_or_default_def
        setRotation_def split: prod.splits)
  moreover have "elements (setPosition new_Matrix 1 2 3)
          = [1, 0, 0, 0, 0, 1, 0, 0, 0, 0, 1, 0, 1, 2, 3, 1]"
    by (simp add: setPosition_def new_Matrix_def)
  moreover have "toQuaternion (fst (setRotation new_Matrix 180 0 0 ''XYZ'')) = (1, 0, 0, 0)"
    by (simp add: setRotation_def toQuaternion_def new_Matrix_def radians_def Let_def)
  moreover have "elements (snd (applyQuaternion (setPosition new_Matrix 1 2 3) 1 0 0 0))
          = [1, 0, 0, 0, 0, - 1, 0, 0, 0, 0, - 1, 0, 0, 0, 0, 1]"
    by (simp add: applyQuaternion_def toQuaternion_def setPosition_def new_Matrix_def
        setRotationFromQuaternion_def Let_def)
  ultimately show ?thesis by simp
qed

subsection \<open>The order ZYZ near 180 degrees\<close>

text \<open>
  In the branch for \<open>ZYZ\<close> the test \<open>round(sy, 4) === 3.1416\<close> compares a rounded sine
  with a rounded \<open>\<pi>\<close>, so it never holds: whenever the sine of \<open>y\<close> is not zero, all
  nine elements are written from the three-angle formula.
\<close>

lemma setRotation_ZYZ_general:
  assumes "sin (radians y) \<noteq> 0"
  shows "setRotation this x y z ''ZYZ'' =
     (let cx = cos (radians x); sx = sin (radians x);
          cy = cos (radians y); sy = sin (radians y);
          cz = cos (radians z); sz = sin (radians z)
      in (this\<lparr>elements := (elements this)
            [0 := cx * cy * cz - sx * sz, 4 := - cz * sx - cy * cx * sz, 8 := cx * sy,
             1 := sx * cy * cz + cx * sz, 5 := cx * cz - cy * sx * sz, 9 := sx * sy,
             2 := - sy * cz, 6 := sy * sz, 10 := cy]\<rparr>, Inr This))"
  using assms by (simp add: setRotation_def Let_def round_scale_sin_normal)

text \<open>
  Claim C3 says that for \<open>y\<close> at or close to 180 degrees, as \<open>y = 179.99999\<close>,
  \<open>setRotation\<close> with \<open>ZYZ\<close> takes the second degenerate branch and writes elements
  0, 1, 4 and 5 only. On a new matrix with \<open>x = z = 0\<close> and \<open>y = 179.99999\<close> the call
  takes the general branch: elements 2, 8 and 10 are written too, and elements 2 and 8,
  which were 0, are now the sine of \<open>y\<close>, a positive number, and its opposite.
\<close>

theorem setRotation_ZYZ_near_180:
  "setRotation new_Matrix 0 179.99999 0 ''ZYZ'' =
     (\<lparr>elements =
        [cos (radians 179.99999), 0, - sin (radians 179.99999), 0,
         0, 1, 0, 0,
         sin (radians 179.99999), 0, cos (radians 179.99999), 0,
         0, 0, 0, 1]\<rparr>, Inr This)
   \<and> 0 < sin (radians 179.99999)"
proof -
  have "radians 0 < radians 179.99999" and "radians 179.99999 < radians 180"
    unfolding radians_less by simp_all
  then have pos: "0 < sin (radians 179.99999)"
    unfolding radians_0 radians_180 by (rule sin_gt_zero)
  then have "sin (radians 179.99999) \<noteq> 0"
    by simp
  then have "setRotation new_Matrix 0 179.99999 0 ''ZYZ'' =
     (\<lparr>elements =
        [cos (radians 179.99999), 0, - sin (radians 179.99999), 0,
         0, 1, 0, 0,
         sin (radians 179.99999), 0, cos (radians 179.99999), 0,
         0, 0, 0, 1]\<rparr>, Inr This)"
    by (simp add: setRotation_ZYZ_general Let_def new_Matrix_def radians_0)
  with pos show ?thesis
    by simp
qed

subsection \<open>The identity\<close>

text \<open>
  Claim C6. A new matrix gives the angles \<open>(0, 0, 0)\<close> with \<open>toEuler\<close> for each of the
  seven supported orders, and the quaternion \<open>(0, 0, 0, 1)\<close> with \<open>toQuaternion\<close>.
\<close>

theorem identity_toEuler_toQuaternion:
  "toEuler new_Matrix ''XYZ'' = (new_Matrix, Inr [0, 0, 0])
   \<and> toEuler new_Matrix ''YXZ'' = (new_Matrix, Inr [0, 0, 0])
   \<and> toEuler new_Matrix ''ZXY'' = (new_Matrix, Inr [0, 0, 0])
   \<and> toEuler new_Matrix ''ZYX'' = (new_Matrix, Inr [0, 0, 0])
   \<and> toEuler new_Matrix ''YZX'' = (new_Matrix, Inr [0, 0, 0])
   \<and> toEuler new_Matrix ''XZY'' = (new_Matrix, Inr [0, 0, 0])
   \<and> toEuler new_Matrix ''ZYZ'' = (new_Matrix, Inr [0, 0, 0])
   \<and> toQuaternion new_Matrix = (0, 0, 0, 1)"
  by (simp add: toEuler_def toQuaternion_def new_Matrix_def Let_def clamp_def atan2_def
      degrees_def)

subsection \<open>From Euler angles to a matrix and back\<close>

lemma roundtrip_XYZ:
  assumes x: "atan2_range x" and y: "asin_range y" and z: "atan2_range z"
  shows "fromEuler_toEuler x y z ''XYZ'' = Inr [x, y, z]"
proof -
  note ry = radians_asin_range [OF y]
  have X: "atan2 (sin (radians x) * cos (radians y)) (cos (radians x) * cos (radians y))
             = radians x"
    using atan2_sin_cos' [OF ry(3) radians_atan2_range [OF x]] .
  have Z: "atan2 (cos (radians y) * sin (radians z)) (cos (radians y) * cos (radians z))
             = radians z"
    using atan2_sin_cos [OF ry(3) radians_atan2_range [OF z]] .
  have Y: "arcsin (sin (radians y)) = radians y"
    using ry(1,2) by (intro arcsin_sin) linarith+
  have G: "\<bar>sin (radians y)\<bar> * 10000000 < 9999999"
    using ry(4) by simp
  show ?thesis
    by (simp add: fromEuler_toEuler_def setRotation_def toEuler_def new_Matrix_def Let_def
        clamp_sin X Y Z G degrees_radians)
qed

lemma roundtrip_ZYX:
  assumes x: "atan2_range x" and y: "asin_range y" and z: "atan2_range z"
  shows "fromEuler_toEuler x y z ''ZYX'' = Inr [x, y, z]"
proof -
  note ry = radians_asin_range [OF y]
  have X: "atan2 (sin (radians x) * cos (radians y)) (cos (radians x) * cos (radians y))
             = radians x"
    using atan2_sin_cos' [OF ry(3) radians_atan2_range [OF x]] .
  have Z: "atan2 (cos (radians y) * sin (radians z)) (cos (radians y) * cos (radians z))
             = radians z"
    using atan2_sin_cos [OF ry(3) radians_atan2_range [OF z]] .
  have Y: "arcsin (sin (radians y)) = radians y"
    using ry(1,2) by (intro arcsin_sin) linarith+
  have G: "\<bar>sin (radians y)\<bar> * 10000000 < 9999999"
    using ry(4) by simp
  show ?thesis
    by (simp add: fromEuler_toEuler_def setRotation_def toEuler_def new_Matrix_def Let_def
        clamp_minus_sin X Y Z G degrees_radians)
qed

lemma roundtrip_YXZ:
  assumes x: "asin_range x" and y: "atan2_range y" and z: "atan2_range z"
  shows "fromEuler_toEuler x y z ''YXZ'' = Inr [x, y, z]"
proof -
  note rx = radians_asin_range [OF x]
  have Y: "atan2 (cos (radians x) * sin (radians y)) (cos (radians x) * cos (radians y))
             = radians y"
    using atan2_sin_cos [OF rx(3) radians_atan2_range [OF y]] .
  have Z: "atan2 (cos (radians x) * sin (radians z)) (cos (radians x) * cos (radians z))
             = radians z"
    using atan2_sin_cos [OF rx(3) radians_atan2_range [OF z]] .
  have X: "arcsin (sin (radians x)) = radians x"
    using rx(1,2) by (intro arcsin_sin) linarith+
  have G: "\<bar>sin (radians x)\<bar> * 10000000 < 9999999"
    using rx(4) by simp
  show ?thesis
    by (simp add: fromEuler_toEuler_def setRotation_def toEuler_def new_Matrix_def Let_def
        clamp_minus_sin X Y Z G degrees_radians)
qed

lemma roundtrip_ZXY:
  assumes x: "asin_range x" and y: "atan2_range y" and z: "atan2_range z"
  shows "fromEuler_toEuler x y z ''ZXY'' = Inr [x, y, z]"
proof -
  note rx = radians_asin_range [OF x]
  have Y: "atan2 (cos (radians x) * sin (radians y)) (cos (radians x) * cos (radians y))
             = radians y"
    using atan2_sin_cos [OF rx(3) radians_atan2_range [OF y]] .
  have Z: "atan2 (cos (radians x) * sin (radians z)) (cos (radians x) * cos (radians z))
             = radians z"
    using atan2_sin_cos [OF rx(3) radians_atan2_range [OF z]] .
  have X: "arcsin (sin (radians x)) = radians x"
    using rx(1,2) by (intro arcsin_sin) linarith+
  have G: "\<bar>sin (radians x)\<bar> * 10000000 < 9999999"
    using rx(4) by simp
  show ?thesis
    by (simp add: fromEuler_toEuler_def setRotation_def toEuler_def new_Matrix_def Let_def
        clamp_sin X Y Z G degrees_radians)
qed

lemma roundtrip_YZX:
  assumes x: "atan2_range x" and y: "atan2_range y" and z: "asin_range z"
  shows "fromEuler_toEuler x y z ''YZX'' = Inr [x, y, z]"
proof -
  note rz = radians_asin_range [OF z]
  have X: "atan2 (sin (radians x) * cos (radians z)) (cos (radians x) * cos (radians z))
             = radians x"
    using atan2_sin_cos' [OF rz(3) radians_atan2_range [OF x]] .
  have Y: "atan2 (sin (radians y) * cos (radians z)) (cos (radians y) * cos (radians z))
             = radians y"
    using atan2_sin_cos' [OF rz(3) radians_atan2_range [OF y]] .
  have Z: "arcsin (sin (radians z)) = radians z"
    using rz(1,2) by (intro arcsin_sin) linarith+
  have G: "\<bar>sin (radians z)\<bar> * 10000000 < 9999999"
    using rz(4) by simp
  show ?thesis
    by (simp add: fromEuler_toEuler_def setRotation_def toEuler_def new_Matrix_def Let_def
        clamp_sin X Y Z G degrees_radians)
qed

lemma roundtrip_ZYZ:
  assumes x: "atan2_range x" and y: "acos_range y" and z: "atan2_range z"
  shows "fromEuler_toEuler x y z ''ZYZ'' = Inr [x, y, z]"
proof -
  note ry = radians_acos_range [OF y]
  then have sy: "0 < sin (radians y)"
    by (rule sin_gt_zero)
  have "cos (radians y) < cos 0"
    using ry by (intro cos_monotone_0_pi) linarith+
  then have c1: "cos (radians y) < 1"
    by simp
  have "cos pi < cos (radians y)"
    using ry by (intro cos_monotone_0_pi) linarith+
  then have c2: "- 1 < cos (radians y)"
    by simp
  have X: "atan2 (sin (radians x) * sin (radians y)) (cos (radians x) * sin (radians y))
             = radians x"
    using atan2_sin_cos' [OF sy radians_atan2_range [OF x]] .
  have Z: "atan2 (sin (radians y) * sin (radians z)) (sin (radians y) * cos (radians z))
             = radians z"
    using atan2_sin_cos [OF sy radians_atan2_range [OF z]] .
  have Y: "arccos (cos (radians y)) = radians y"
    using ry by (intro arccos_cos) linarith+
  from sy have S: "sin (radians y) \<noteq> 0"
    by simp
  show ?thesis
    by (simp add: fromEuler_toEuler_def setRotation_def toEuler_def new_Matrix_def Let_def
        round_scale_sin_normal X Y Z S c1 c2 degrees_radians)
qed

text \<open>Values of the trigonometric functions at 45 and 135 degrees.\<close>

lemma radians_45: "radians 45 = pi / 4"
  by (simp add: radians_def)

lemma radians_135: "radians 135 = 3 * pi / 4"
  by (simp add: radians_def)

lemma sqrt2_bounds: "1 < sqrt 2" "sqrt 2 < 3 / 2"
proof -
  show "1 < sqrt 2"
    by simp
  show "sqrt 2 < 3 / 2"
    by (rule real_less_lsqrt) (simp_all add: power2_eq_square)
qed

lemma sin_135: "sin (3 * pi / 4) = sqrt 2 / 2"
proof -
  have "sin (pi - pi / 4) = sin (pi / 4)"
    by (rule sin_pi_minus)
  then show ?thesis
    by (simp add: sin_45)
qed

lemma cos_135: "cos (3 * pi / 4) = - (sqrt 2 / 2)"
proof -
  have "cos (pi - pi / 4) = - cos (pi / 4)"
    by (rule cos_pi_minus)
  then show ?thesis
    by (simp add: cos_45)
qed

lemma arcsin_45: "arcsin (sqrt 2 / 2) = pi / 4"
proof -
  have "arcsin (sin (pi / 4)) = pi / 4"
    by (rule arcsin_sin) (use pi_gt_zero in linarith)+
  then show ?thesis
    by (simp only: sin_45)
qed

lemma atan2_third_quadrant: "atan2 (- (1 / 2)) (- (1 / 2)) = - (3 * pi / 4)"
  by (simp add: atan2_def arctan_one)

text \<open>
  With the order \<open>XYZ\<close> the angles \<open>(45, 135, 45)\<close> come back as \<open>(-135, 45, -135)\<close>,
  the other triple of the same rotation.
\<close>

lemma XYZ_45_135_45: "fromEuler_toEuler 45 135 45 ''XYZ'' = Inr [- 135, 45, - 135]"
proof -
  have g: "\<bar>sqrt 2 / 2\<bar> * 10000000 < 9999999"
    using sqrt2_bounds by linarith
  have c: "clamp (sqrt 2 / 2) (- 1) 1 = sqrt 2 / 2"
    using sqrt2_bounds by (intro clamp_id) linarith+
  show ?thesis
    using g
    by (simp add: fromEuler_toEuler_def setRotation_def toEuler_def new_Matrix_def Let_def
        radians_45 radians_135 sin_45 cos_45 sin_135 cos_135 c arcsin_45
        atan2_third_quadrant degrees_def)
qed

text \<open>
  With the order \<open>XZY\<close>, \<open>setRotation\<close> builds the matrix of \<open>YZX\<close> and \<open>toEuler\<close>
  reads it as a matrix of \<open>XZY\<close>: the angles \<open>(45, 45, 45)\<close> come back with a third
  angle that is not positive.
\<close>

lemma XZY_45_45_45:
  "fromEuler_toEuler 45 45 45 ''XZY'' =
     Inr [degrees (arctan (sqrt 2 / 2 + 1)), degrees (arctan (sqrt 2 / 2 + 1)),
          degrees (- arcsin (1 / 2 - sqrt 2 / 4))]"
proof -
  have v: "0 \<le> 1 / 2 - sqrt 2 / 4" "1 / 2 - sqrt 2 / 4 \<le> 1 / 4"
    using sqrt2_bounds by linarith+
  then have "\<bar>1 / 2 - sqrt 2 / 4\<bar> \<le> 1 / 4"
    by (simp only: abs_of_nonneg)
  then have "\<bar>1 / 2 - sqrt 2 / 4\<bar> * 10000000 \<le> 1 / 4 * 10000000"
    by (rule mult_right_mono) simp
  also have "\<dots> < (9999999::real)"
    by simp
  finally have g: "\<bar>1 / 2 - sqrt 2 / 4\<bar> * 10000000 < 9999999" .
  have c: "clamp (1 / 2 - sqrt 2 / 4) (- 1) 1 = 1 / 2 - sqrt 2 / 4"
    using sqrt2_bounds by (intro clamp_id) linarith+
  have m: "arcsin (- (1 / 2 - sqrt 2 / 4)) = - arcsin (1 / 2 - sqrt 2 / 4)"
    using sqrt2_bounds by (intro arcsin_minus) linarith+
  have a: "atan2 (sqrt 2 / 4 + 1 / 2) (1 / 2) = arctan (sqrt 2 / 2 + 1)"
    by (simp add: atan2_def add_divide_distrib)
  show ?thesis
    using g m
    by (simp add: fromEuler_toEuler_def setRotation_def toEuler_def new_Matrix_def Let_def
        radians_45 sin_45 cos_45 c a)
qed

lemma XZY_third_angle: "degrees (- arcsin (1 / 2 - sqrt 2 / 4)) \<le> 0"
proof -
  have "0 \<le> 1 / 2 - sqrt 2 / 4" and "1 / 2 - sqrt 2 / 4 \<le> 1"
    using sqrt2_bounds by linarith+
  then have "1 / 2 - sqrt 2 / 4 \<in> {0..1}"
    by (simp only: atLeastAtMost_iff)
  then have "0 \<le> arcsin (1 / 2 - sqrt 2 / 4)"
    by (rule arcsin_nonneg)
  then have "- arcsin (1 / 2 - sqrt 2 / 4) * (180 / pi) \<le> 0"
    by (intro mult_nonpos_nonneg) simp_all
  then show ?thesis
    by (simp only: degrees_def)
qed

text \<open>
  Claim C2, as stated: for every supported order and every angle triple that stays away
  from the gimbal branch, \<open>setRotation\<close> on a new matrix followed by \<open>toEuler\<close> gives
  the triple back within \<open>1e-4\<close> degrees. It fails for the order \<open>XZY\<close> at
  \<open>(45, 45, 45)\<close>, and for the order \<open>XYZ\<close> at \<open>(45, 135, 45)\<close>, where the middle
  angle is outside the range of \<open>Math.asin\<close>.
\<close>

theorem euler_round_trip_counterexample:
  "\<not> reproduces 45 45 45 ''XZY''
   \<and> fromEuler_toEuler 45 135 45 ''XYZ'' = Inr [- 135, 45, - 135]
   \<and> \<not> reproduces 45 135 45 ''XYZ''"
proof -
  have "\<not> \<bar>degrees (- arcsin (1 / 2 - sqrt 2 / 4)) - 45\<bar> \<le> 1 / 10 ^ 4"
    using XZY_third_angle by simp
  then have "\<not> reproduces 45 45 45 ''XZY''"
    by (simp add: reproduces_def XZY_45_45_45)
  moreover have "\<not> reproduces 45 135 45 ''XYZ''"
    by (simp add: reproduces_def XYZ_45_135_45)
  ultimately show ?thesis
    using XYZ_45_135_45 by simp
qed

text \<open>
  Claim C2, amended: for each of the six orders \<open>XYZ\<close>, \<open>YXZ\<close>, \<open>ZXY\<close>, \<open>ZYX\<close>,
  \<open>YZX\<close> and \<open>ZYZ\<close>, and every angle triple in the principal range of the order,
  \<open>setRotation\<close> on a new matrix followed by \<open>toEuler\<close> returns the triple itself (in
  exact arithmetic), hence within \<open>1e-4\<close> degrees. In the principal range no angle is
  near a degenerate configuration: the two angles read with \<open>Math.atan2\<close> lie in
  \<open>(-180, 180]\<close>, and the third angle, read with \<open>Math.asin\<close>, lies in
  \<open>[-89.9, 89.9]\<close>; for \<open>ZYZ\<close> the middle angle, read with \<open>Math.acos\<close>, lies in
  \<open>[0.1, 179.9]\<close>.
\<close>

theorem euler_round_trip:
  assumes "principal_range order x y z"
  shows "fromEuler_toEuler x y z order = Inr [x, y, z] \<and> reproduces x y z order"
proof -
  consider (XYZ) "order = ''XYZ''" | (ZYX) "order = ''ZYX''" | (YXZ) "order = ''YXZ''"
    | (ZXY) "order = ''ZXY''" | (YZX) "order = ''YZX''" | (ZYZ) "order = ''ZYZ''"
    using assms unfolding principal_range_def by (auto split: if_splits)
  then have "fromEuler_toEuler x y z order = Inr [x, y, z]"
  proof cases
    case XYZ
    with assms show ?thesis
      by (simp add: principal_range_def roundtrip_XYZ)
  next
    case ZYX
    with assms show ?thesis
      by (simp add: principal_range_def roundtrip_ZYX)
  next
    case YXZ
    with assms show ?thesis
      by (simp add: principal_range_def roundtrip_YXZ)
  next
    case ZXY
    with assms show ?thesis
      by (simp add: principal_range_def roundtrip_ZXY)
  next
    case YZX
    with assms show ?thesis
      by (simp add: principal_range_def roundtrip_YZX)
  next
    case ZYZ
    with assms show ?thesis
      by (simp add: principal_range_def roundtrip_ZYZ)
  qed
  then show ?thesis
    by (simp add: reproduces_def)
qed

theorem euler_round_trip_witness:
  "principal_range ''XYZ'' 10 30 20
   \<and> fromEuler_toEuler 10 30 20 ''XYZ'' = Inr [10, 30, 20]
   \<and> reproduces 10 30 20 ''XYZ''"
proof -
  have h: "principal_range ''XYZ'' 10 30 20"
    by (simp add: principal_range_def atan2_range_def asin_range_def)
  show ?thesis
    using h euler_round_trip [OF h] by simp
qed

end
